theory Spec2Isabelle
  imports Complex_Main "HOL-Library.Word"
begin

section \<open>JavaScript values\<close>

text \<open>
  The fragment of JavaScript values the simulator handles. Numbers that hold cell states
  and gate inputs are integers, coordinates are array indices (natural numbers);
  \<open>truthy\<close> is JavaScript's ToBoolean on this fragment. A read of a property of
  \<open>undefined\<close> raises \<open>TypeError\<close>.
\<close>

datatype jsval = JNum int | JStr string | JBool bool | JUndefined | JNull

fun truthy :: "jsval \<Rightarrow> bool" where
  "truthy (JNum n) = (n \<noteq> 0)"
| "truthy (JStr s) = (s \<noteq> [])"
| "truthy (JBool b) = b"
| "truthy JUndefined = False"
| "truthy JNull = False"

datatype error = TypeError

section \<open>The mMPU simulator: \<open>createMPUSimulator\<close>\<close>

text \<open>
  \<open>memristors\<close> is the simulator's \<open>Map\<close> from a cell id to \<open>{state, history}\<close>.
  The source builds the id as the string \<open>m-r-c\<close>; the string determines the pair of
  coordinates, so the model keys the map by the pair. A history entry is
  \<open>{op, t, val}\<close> or \<open>{op, t, val, a, b}\<close>; the wall-clock stamp \<open>t\<close> is left out,
  nothing reads it.
\<close>

datatype hist = Hist string int | HistAB string int int int

record memristor =
  state :: int
  history :: "hist list"

type_synonym coord = "nat \<times> nat"

type_synonym memristors = "nat \<times> nat \<rightharpoonup> memristor"

definition makeId :: "nat \<Rightarrow> nat \<Rightarrow> nat \<times> nat" where
  "makeId r c = (r, c)"

text \<open>\<open>ensure\<close> creates the cell with state 0 when the map does not hold it, and returns it.\<close>

definition ensure :: "nat \<Rightarrow> nat \<Rightarrow> memristors \<Rightarrow> memristor \<times> memristors" where
  "ensure r c ms =
     (case ms (makeId r c) of
        None \<Rightarrow> (\<lparr>state = 0, history = []\<rparr>,
                  ms(makeId r c \<mapsto> \<lparr>state = 0, history = []\<rparr>))
      | Some m \<Rightarrow> (m, ms))"

text \<open>
  \<open>MNOT\<close> and \<open>MNOR\<close> mutate the object \<open>ensure\<close> returned, which is the map's entry:
  the model stores the changed record back under the same id. \<open>MNOR\<close> reads both operand
  states before it touches the target.
\<close>

definition MNOT :: "coord \<Rightarrow> memristors \<Rightarrow> int \<times> memristors" where
  "MNOT target ms =
     (let (m, ms1) = ensure (fst target) (snd target) ms;
          v = (if state m \<noteq> 0 then 0 else 1)
      in (v, ms1(makeId (fst target) (snd target) \<mapsto>
                 m\<lparr>state := v, history := history m @ [Hist ''MNOT'' v]\<rparr>)))"

definition MNOR :: "coord \<Rightarrow> coord \<Rightarrow> coord \<Rightarrow> memristors \<Rightarrow> int \<times> memristors" where
  "MNOR target a b ms =
     (let (ea, ms1) = ensure (fst a) (snd a) ms;
          ma = state ea;
          (eb, ms2) = ensure (fst b) (snd b) ms1;
          mb = state eb;
          res = (if ma \<noteq> 0 \<or> mb \<noteq> 0 then 0 else 1);
          (m, ms3) = ensure (fst target) (snd target) ms2
      in (res, ms3(makeId (fst target) (snd target) \<mapsto>
                   m\<lparr>state := res, history := history m @ [HistAB ''MNOR'' res ma mb]\<rparr>)))"

definition COM :: "memristors \<Rightarrow> memristors" where
  "COM ms = ms"

definition ISO :: "memristors \<Rightarrow> memristors" where
  "ISO ms = ms"

definition JSET :: "memristors \<Rightarrow> memristors" where
  "JSET ms = ms"

definition JRES :: "memristors \<Rightarrow> memristors" where
  "JRES ms = ms"

text \<open>
  \<open>resetGrid\<close>: \<open>memristors.clear()\<close>, then the two nested \<open>for\<close> loops over
  \<open>0 \<le> r < rows\<close> and \<open>0 \<le> c < cols\<close>, each calling \<open>ensure(r, c)\<close>.
\<close>

definition resetGrid :: "nat \<Rightarrow> nat \<Rightarrow> memristors \<Rightarrow> memristors" where
  "resetGrid rows cols ms =
     fold (\<lambda>r acc. fold (\<lambda>c acc'. snd (ensure r c acc')) [0..<cols] acc) [0..<rows] Map.empty"

definition setState :: "nat \<Rightarrow> nat \<Rightarrow> jsval \<Rightarrow> memristors \<Rightarrow> memristors" where
  "setState r c v ms =
     (let (m, ms1) = ensure r c ms;
          s = (if truthy v then 1 else 0)
      in ms1(makeId r c \<mapsto> m\<lparr>state := s, history := history m @ [Hist ''SET'' s]\<rparr>))"

definition getState :: "nat \<Rightarrow> nat \<Rightarrow> memristors \<Rightarrow> int \<times> memristors" where
  "getState r c ms = (let (m, ms1) = ensure r c ms in (state m, ms1))"

text \<open>\<open>snapshot\<close>: the state of every cell the map holds.\<close>

definition snapshot :: "memristors \<Rightarrow> (nat \<times> nat \<rightharpoonup> int)" where
  "snapshot ms = (\<lambda>k. map_option state (ms k))"

text \<open>
  A sequence of calls on the simulator's interface, for the properties that hold after
  any sequence of operations. Coordinates are given, so no call raises.
\<close>

datatype simop =
    OpResetGrid nat nat
  | OpSetState nat nat jsval
  | OpGetState nat nat
  | OpMNOT coord
  | OpMNOR coord coord coord
  | OpCOM | OpISO | OpJSET | OpJRES

fun applyOp :: "simop \<Rightarrow> memristors \<Rightarrow> memristors" where
  "applyOp (OpResetGrid rows cols) ms = resetGrid rows cols ms"
| "applyOp (OpSetState r c v) ms = setState r c v ms"
| "applyOp (OpGetState r c) ms = snd (getState r c ms)"
| "applyOp (OpMNOT t) ms = snd (MNOT t ms)"
| "applyOp (OpMNOR t a b) ms = snd (MNOR t a b ms)"
| "applyOp OpCOM ms = COM ms"
| "applyOp OpISO ms = ISO ms"
| "applyOp OpJSET ms = JSET ms"
| "applyOp OpJRES ms = JRES ms"

definition applyOps :: "simop list \<Rightarrow> memristors \<Rightarrow> memristors" where
  "applyOps ops ms = fold applyOp ops ms"

text \<open>Every cell the map holds has state 0 or 1.\<close>

definition binaryStates :: "memristors \<Rightarrow> bool" where
  "binaryStates ms = (\<forall>k m. ms k = Some m \<longrightarrow> state m = 0 \<or> state m = 1)"

section \<open>The gate catalog: \<open>GATES\<close> and \<open>computeTruth\<close>\<close>

text \<open>
  \<open>inputs\<close> is the component's state \<open>{A, B}\<close>; both keys are always present, so the
  test \<open>'B' in inputs\<close> of \<open>runGate\<close> is true. An instruction is \<open>{op, args}\<close>, and
  several instructions of the catalog have no \<open>args\<close> (\<open>None\<close>: the property is
  \<open>undefined\<close>). The \<open>compute\<close> member of a gate is called from commented-out code
  only and is left out.
\<close>

record inputs =
  A :: int
  B :: int

record instr =
  op :: string
  args :: "coord list option"

record gate =
  name :: string
  description :: string
  layoutRows :: nat
  layoutCols :: nat
  instructionSequence :: "inputs \<Rightarrow> instr list"

definition gateNOT :: gate where
  "gateNOT = \<lparr>name = ''NOT'', description = ''Inverts the input: output = !A'',
     layoutRows = 1, layoutCols = 3,
     instructionSequence = (\<lambda>input.
       [\<lparr>op = ''ISO'', args = Some []\<rparr>,
        \<lparr>op = ''MNOT'', args = Some [(0, 2)]\<rparr>])\<rparr>"

definition gateAND :: gate where
  "gateAND = \<lparr>name = ''AND'', description = ''A AND B'',
     layoutRows = 1, layoutCols = 4,
     instructionSequence = (\<lambda>input.
       [\<lparr>op = ''ISO'', args = None\<rparr>,
        \<lparr>op = ''MNOT'', args = Some [(0, 1)]\<rparr>,
        \<lparr>op = ''MNOT'', args = Some [(0, 2)]\<rparr>,
        \<lparr>op = ''MNOR'', args = Some [(0, 3), (0, 1), (0, 2)]\<rparr>])\<rparr>"

definition gateOR :: gate where
  "gateOR = \<lparr>name = ''OR'', description = ''A OR B'',
     layoutRows = 1, layoutCols = 4,
     instructionSequence = (\<lambda>input.
       [\<lparr>op = ''ISO'', args = None\<rparr>,
        \<lparr>op = ''MNOR'', args = Some [(0, 3), (0, 0), (0, 1)]\<rparr>,
        \<lparr>op = ''MNOT'', args = Some [(0, 3)]\<rparr>])\<rparr>"

definition gateNAND :: gate where
  "gateNAND = \<lparr>name = ''NAND'', description = ''NOT (A AND B)'',
     layoutRows = 1, layoutCols = 5,
     instructionSequence = (\<lambda>input.
       [\<lparr>op = ''ISO'', args = None\<rparr>,
        \<lparr>op = ''MNOT'', args = Some [(0, 1)]\<rparr>,
        \<lparr>op = ''MNOT'', args = Some [(0, 2)]\<rparr>,
        \<lparr>op = ''MNOR'', args = Some [(0, 3), (0, 1), (0, 2)]\<rparr>,
        \<lparr>op = ''MNOT'', args = Some [(0, 4)]\<rparr>])\<rparr>"

definition gateXOR :: gate where
  "gateXOR = \<lparr>name = ''XOR'', description = ''(A XOR B)'',
     layoutRows = 2, layoutCols = 4,
     instructionSequence = (\<lambda>input.
       [\<lparr>op = ''ISO'', args = None\<rparr>,
        \<lparr>op = ''MNOR'', args = None\<rparr>,
        \<lparr>op = ''MNOT'', args = None\<rparr>,
        \<lparr>op = ''COM'', args = None\<rparr>])\<rparr>"

definition gateXNOR :: gate where
  "gateXNOR = \<lparr>name = ''XNOR'', description = ''NOT (A XOR B)'',
     layoutRows = 2, layoutCols = 4,
     instructionSequence = (\<lambda>input.
       [\<lparr>op = ''ISO'', args = None\<rparr>,
        \<lparr>op = ''MNOR'', args = None\<rparr>,
        \<lparr>op = ''MNOT'', args = None\<rparr>,
        \<lparr>op = ''COM'', args = None\<rparr>])\<rparr>"

text \<open>
  \<open>GATES[selectedGate]\<close> is a property read on an object literal: one of the six own
  keys gives the gate, a key that \<open>Object.prototype\<close> defines gives an inherited value
  that is not a gate (its \<open>layoutRows\<close>, \<open>layoutCols\<close> and \<open>instructionSequence\<close> are
  \<open>undefined\<close>), and any other string gives \<open>undefined\<close>.
\<close>

datatype 'a lookup = Own 'a | Inherited | Absent

definition objectPrototypeKeys :: "string list" where
  "objectPrototypeKeys =
     [''constructor'', ''hasOwnProperty'', ''isPrototypeOf'', ''propertyIsEnumerable'',
      ''toLocaleString'', ''toString'', ''valueOf'', ''__proto__'',
      ''__defineGetter__'', ''__defineSetter__'', ''__lookupGetter__'', ''__lookupSetter__'']"

definition GATES :: "string \<Rightarrow> gate lookup" where
  "GATES g =
     (if g = ''NOT'' then Own gateNOT
      else if g = ''AND'' then Own gateAND
      else if g = ''OR'' then Own gateOR
      else if g = ''NAND'' then Own gateNAND
      else if g = ''XOR'' then Own gateXOR
      else if g = ''XNOR'' then Own gateXNOR
      else if g \<in> set objectPrototypeKeys then Inherited
      else Absent)"

text \<open>
  \<open>a ^ b\<close> is the bitwise exclusive or of the operands converted to 32-bit integers.
\<close>

definition xor32 :: "int \<Rightarrow> int \<Rightarrow> int" where
  "xor32 a b = sint (xor (word_of_int a :: 32 word) (word_of_int b))"

definition computeTruth :: "string \<Rightarrow> int \<Rightarrow> int \<Rightarrow> jsval" where
  "computeTruth g a b =
     (if g = ''NOT'' then JNum (if a \<noteq> 0 then 0 else 1)
      else if g = ''AND'' then JNum (if a \<noteq> 0 \<and> b \<noteq> 0 then 1 else 0)
      else if g = ''OR'' then JNum (if a \<noteq> 0 \<or> b \<noteq> 0 then 1 else 0)
      else if g = ''NAND'' then JNum (if a \<noteq> 0 \<and> b \<noteq> 0 then 0 else 1)
      else if g = ''XOR'' then JNum (if xor32 a b \<noteq> 0 then 1 else 0)
      else if g = ''XNOR'' then JNum (if xor32 a b \<noteq> 0 then 0 else 1)
      else JStr ''-'')"

text \<open>
  The exclusive or of two bits as arithmetic, for stating what \<open>XOR\<close> and \<open>XNOR\<close>
  conventionally mean.
\<close>

definition bitXor :: "int \<Rightarrow> int \<Rightarrow> int" where
  "bitXor a b = (a + b) mod 2"

section \<open>Running a gate: \<open>runGate\<close>\<close>

text \<open>
  \<open>ins.args[i]\<close> on an array is \<open>undefined\<close> past its end. A call of \<open>sim.MNOT\<close> or
  \<open>sim.MNOR\<close> with an \<open>undefined\<close> coordinate raises \<open>TypeError\<close> where the coordinate's
  \<open>r\<close> is first read: \<open>MNOR\<close> reads \<open>a\<close>, then \<open>b\<close>, then \<open>target\<close>, and the cells it has
  ensured by then stay in the map.
\<close>

definition argAt :: "coord list \<Rightarrow> nat \<Rightarrow> coord option" where
  "argAt l i = (if i < length l then Some (l ! i) else None)"

definition callMNOT :: "coord option \<Rightarrow> memristors \<Rightarrow> (error + unit) \<times> memristors" where
  "callMNOT target ms =
     (case target of
        None \<Rightarrow> (Inl TypeError, ms)
      | Some t \<Rightarrow> (Inr (), snd (MNOT t ms)))"

definition callMNOR ::
  "coord option \<Rightarrow> coord option \<Rightarrow> coord option \<Rightarrow> memristors \<Rightarrow> (error + unit) \<times> memristors" where
  "callMNOR target a b ms =
     (case a of
        None \<Rightarrow> (Inl TypeError, ms)
      | Some ca \<Rightarrow>
          (case b of
             None \<Rightarrow> (Inl TypeError, snd (ensure (fst ca) (snd ca) ms))
           | Some cb \<Rightarrow>
               (case target of
                  None \<Rightarrow> (Inl TypeError,
                            snd (ensure (fst cb) (snd cb) (snd (ensure (fst ca) (snd ca) ms))))
                | Some t \<Rightarrow> (Inr (), snd (MNOR t ca cb ms)))))"

text \<open>
  The \<open>switch\<close> of \<open>runGate\<close> on \<open>ins.op\<close>. It has no \<open>default\<close> case: another op-code
  runs nothing. Reading \<open>ins.args[0]\<close> raises \<open>TypeError\<close> when the instruction has no
  \<open>args\<close>.
\<close>

definition execInstr :: "instr \<Rightarrow> memristors \<Rightarrow> (error + unit) \<times> memristors" where
  "execInstr ins ms =
     (if op ins = ''MNOT'' then
        (case args ins of
           None \<Rightarrow> (Inl TypeError, ms)
         | Some l \<Rightarrow> callMNOT (argAt l 0) ms)
      else if op ins = ''MNOR'' then
        (case args ins of
           None \<Rightarrow> (Inl TypeError, ms)
         | Some l \<Rightarrow> callMNOR (argAt l 0) (argAt l 1) (argAt l 2) ms)
      else if op ins = ''ISO'' then (Inr (), ISO ms)
      else if op ins = ''COM'' then (Inr (), COM ms)
      else if op ins = ''JSET'' then (Inr (), JSET ms)
      else if op ins = ''JRES'' then (Inr (), JRES ms)
      else (Inr (), ms))"

text \<open>
  The loop of \<open>runGate\<close>: one instruction, then \<open>setSnapshot\<close>, \<open>updateCrossbar\<close> and
  \<open>setInstructionLog\<close>, then the pause. Of these only the argument
  \<open>sim.getState(0,3)\<close> of \<open>updateCrossbar\<close> touches the simulator (it ensures the cell);
  the rest writes view state that \<open>runGate\<close> never reads. The pauses are not modelled:
  the run is taken without another event handler in between. An exception leaves the loop.
\<close>

fun runInstructions :: "instr list \<Rightarrow> memristors \<Rightarrow> (error + unit) \<times> memristors" where
  "runInstructions [] ms = (Inr (), ms)"
| "runInstructions (ins # rest) ms =
     (case execInstr ins ms of
        (Inl e, ms1) \<Rightarrow> (Inl e, ms1)
      | (Inr u, ms1) \<Rightarrow> runInstructions rest (snd (getState 0 3 ms1)))"

text \<open>
  \<open>runGate\<close> returns the value it passes to \<open>setOutput\<close>, or the exception, and the
  simulator's map. For an absent gate name \<open>gate.layoutRows\<close> raises at once. For an
  inherited name the dimensions are \<open>undefined\<close>, the loops of \<open>resetGrid\<close> do not run
  (\<open>0 < undefined\<close> is false), and the call of \<open>gate.instructionSequence\<close> raises.
\<close>

definition runGate :: "string \<Rightarrow> inputs \<Rightarrow> memristors \<Rightarrow> (error + int) \<times> memristors" where
  "runGate selectedGate inp ms =
     (case GATES selectedGate of
        Absent \<Rightarrow> (Inl TypeError, ms)
      | Inherited \<Rightarrow>
          (let ms1 = resetGrid 0 0 ms;
               ms2 = setState 0 0 (JNum (if A inp \<noteq> 0 then 1 else 0)) ms1;
               ms3 = setState 0 1 (JNum (if B inp \<noteq> 0 then 1 else 0)) ms2
           in (Inl TypeError, ms3))
      | Own g \<Rightarrow>
          (let ms1 = resetGrid (layoutRows g) (layoutCols g) ms;
               ms2 = setState 0 0 (JNum (if A inp \<noteq> 0 then 1 else 0)) ms1;
               ms3 = setState 0 1 (JNum (if B inp \<noteq> 0 then 1 else 0)) ms2;
               instructions = instructionSequence g inp
           in (case runInstructions instructions ms3 of
                 (Inl e, ms4) \<Rightarrow> (Inl e, ms4)
               | (Inr u, ms4) \<Rightarrow> (Inr (fst (getState 0 3 ms4)), snd (getState 0 3 ms4)))))"

section \<open>The crossbar read model\<close>

text \<open>
  A crossbar cell is \<open>{state, selector}\<close> (\<open>updateCrossbar\<close> adds a \<open>logic\<close> label
  that only the display reads); \<open>state\<close> is a string, \<open>RON\<close>, \<open>ROFF\<close> or the filler
  \<open>INTER\<close>, and the field is named \<open>rstate\<close> here. The crossbar is an array of rows.
  JavaScript's numbers are taken as real numbers: rounding of doubles is not modelled.
  \<open>matrix[r][c]\<close> outside the array is \<open>undefined\<close>, and reading its \<open>selector\<close> raises
  \<open>TypeError\<close>; \<open>drivenWL[r]\<close> outside the array is \<open>undefined\<close>, which counts as
  not driven.
\<close>

record cell =
  rstate :: string
  selector :: bool

definition cellAt :: "cell list list \<Rightarrow> nat \<Rightarrow> nat \<Rightarrow> error + cell" where
  "cellAt matrix r c =
     (if r < length matrix \<and> c < length (matrix ! r) then Inr (matrix ! r ! c)
      else Inl TypeError)"

definition drivenAt :: "bool list \<Rightarrow> nat \<Rightarrow> bool" where
  "drivenAt d r = (r < length d \<and> d ! r)"

text \<open>The constants of the app: \<open>RON = 1e3\<close>, \<open>ROFF = 1e6\<close>, \<open>DEFAULT_VDRIVE = 1.0\<close>.\<close>

definition RON :: real where
  "RON = 1000"

definition ROFF :: real where
  "ROFF = 1000000"

definition DEFAULT_VDRIVE :: real where
  "DEFAULT_VDRIVE = 1"

text \<open>The constants of \<open>CrossbarAdvanced\<close>: \<open>RON = 2000.0\<close>, \<open>ROFF = 40000.0\<close>.\<close>

definition RON_adv :: real where
  "RON_adv = 2000"

definition ROFF_adv :: real where
  "ROFF_adv = 40000"

subsection \<open>The recompute effect of the app\<close>

text \<open>
  The body of the effect from \<open>build G matrix\<close> to the end of the current loops, as a
  function of the crossbar, the driven rows and the drive voltage. The two resistances
  are parameters, so that the computation can be compared with the one of
  \<open>CrossbarAdvanced\<close> on the same constants; the effect itself passes \<open>RON\<close> and
  \<open>ROFF\<close>. The result is the local \<open>G\<close>, \<open>currents\<close> and \<open>blTotals\<close>.
\<close>

definition appG0 :: "real list list" where
  "appG0 = replicate 4 (replicate 4 0)"

fun appGcols ::
  "real \<Rightarrow> real \<Rightarrow> cell list list \<Rightarrow> nat \<Rightarrow> nat list \<Rightarrow> real list list \<Rightarrow> error + real list list" where
  "appGcols ron roff crossbar r [] G = Inr G"
| "appGcols ron roff crossbar r (c # cs) G =
     (case cellAt crossbar r c of
        Inl e \<Rightarrow> Inl e
      | Inr cl \<Rightarrow>
          appGcols ron roff crossbar r cs
            (G[r := (G ! r)[c := (if \<not> selector cl then 0
                                  else 1 / (if rstate cl = ''RON'' then ron else roff))]]))"

fun appGrows ::
  "real \<Rightarrow> real \<Rightarrow> cell list list \<Rightarrow> nat list \<Rightarrow> real list list \<Rightarrow> error + real list list" where
  "appGrows ron roff crossbar [] G = Inr G"
| "appGrows ron roff crossbar (r # rs) G =
     (case appGcols ron roff crossbar r [0..<4] G of
        Inl e \<Rightarrow> Inl e
      | Inr G' \<Rightarrow> appGrows ron roff crossbar rs G')"

definition appCurrents ::
  "bool list \<Rightarrow> real \<Rightarrow> real list list \<Rightarrow> real list list \<times> real list" where
  "appCurrents newDriven vDrive G =
     fold (\<lambda>r st.
        let Vwl = (if drivenAt newDriven r then vDrive else 0) in
        fold (\<lambda>c (currents, blTotals).
           let Irc = (Vwl - 0) * (G ! r ! c) in
           (currents[r := (currents ! r)[c := Irc]], blTotals[c := blTotals ! c + Irc]))
          [0..<4] st)
       [0..<4] (replicate 4 (replicate 4 0), replicate 4 0)"

definition appCompute ::
  "real \<Rightarrow> real \<Rightarrow> cell list list \<Rightarrow> bool list \<Rightarrow> real
     \<Rightarrow> error + (real list list \<times> real list list \<times> real list)" where
  "appCompute ron roff crossbar newDriven vDrive =
     (case appGrows ron roff crossbar [0..<4] appG0 of
        Inl e \<Rightarrow> Inl e
      | Inr G \<Rightarrow> Inr (G, appCurrents newDriven vDrive G))"

text \<open>
  The read threshold and the derived logic output. \<open>blTotals[0]\<close> of an empty array
  is \<open>undefined\<close>, and \<open>undefined > threshold\<close> is false.
\<close>

definition threshold :: "real \<Rightarrow> real" where
  "threshold vDrive = (vDrive / RON) * 0.35"

definition readout :: "real list \<Rightarrow> real \<Rightarrow> int" where
  "readout blTotals vDrive =
     (if blTotals \<noteq> [] \<and> blTotals ! 0 > threshold vDrive then 1 else 0)"

text \<open>
  The whole effect: the driven rows come from the inputs (\<open>[!!A, !!B, false, false]\<close>),
  and the effect sets \<open>drivenWL\<close>, the output \<open>out\<close> and \<open>advancedSim = {currents, blTotals}\<close>.
  \<open>blTotals\<close> has four entries, so \<open>blTotals[0]\<close> is in range.
\<close>

record effectResult =
  drivenWL :: "bool list"
  out :: int
  currents :: "real list list"
  blTotals :: "real list"

definition crossbarEffect :: "inputs \<Rightarrow> cell list list \<Rightarrow> real \<Rightarrow> error + effectResult" where
  "crossbarEffect inp crossbar vDrive =
     (let a = (if A inp \<noteq> 0 then 1 else 0 :: int);
          b = (if B inp \<noteq> 0 then 1 else 0 :: int);
          newDriven = [a \<noteq> 0, b \<noteq> 0, False, False]
      in case appCompute RON ROFF crossbar newDriven vDrive of
           Inl e \<Rightarrow> Inl e
         | Inr (G, cur, bl) \<Rightarrow>
             Inr \<lparr>drivenWL = newDriven, out = readout bl vDrive,
                  currents = cur, blTotals = bl\<rparr>)"

text \<open>
  \<open>updateCrossbar(gate, A, B, output)\<close>: the 4 by 4 matrix the app stores after a gate or
  input change. \<open>output\<close> may be the string \<open>-\<close> of \<open>computeTruth\<close>; \<open>===\<close> compares
  without conversion.
\<close>

definition updateCrossbar :: "int \<Rightarrow> int \<Rightarrow> jsval \<Rightarrow> cell list list" where
  "updateCrossbar a b output =
     map (\<lambda>r. map (\<lambda>c.
        if r = 0 \<and> c = 0 then \<lparr>rstate = (if a = 1 then ''RON'' else ''ROFF''), selector = True\<rparr>
        else if r = 0 \<and> c = 1 then \<lparr>rstate = (if b = 1 then ''RON'' else ''ROFF''), selector = True\<rparr>
        else if r = 1 \<and> c = 0 then \<lparr>rstate = (if output = JNum 1 then ''RON'' else ''ROFF''), selector = True\<rparr>
        else \<lparr>rstate = ''INTER'', selector = True\<rparr>) [0..<4]) [0..<(4::nat)]"

text \<open>A crossbar as the app holds it: four rows of four cells.\<close>

definition wf4 :: "cell list list \<Rightarrow> bool" where
  "wf4 crossbar = (length crossbar = 4 \<and> list_all (\<lambda>row. length row = 4) crossbar)"

subsection \<open>The \<open>sim\<close> computation of \<open>CrossbarAdvanced\<close>\<close>

text \<open>
  The \<open>useMemo\<close> body, over \<open>rows\<close> by \<open>cols\<close> cells, with the two resistances as
  parameters (the component binds them to \<open>RON_adv\<close> and \<open>ROFF_adv\<close>). The result is
  \<open>{G, I, BL_total, maxI}\<close>; the fields are named \<open>simG\<close>, \<open>simI\<close> here.
\<close>

record simResult =
  simG :: "real list list"
  simI :: "real list list"
  BL_total :: "real list"
  maxI :: real

fun advGcols ::
  "real \<Rightarrow> real \<Rightarrow> cell list list \<Rightarrow> nat \<Rightarrow> nat list \<Rightarrow> real list list \<Rightarrow> error + real list list" where
  "advGcols ron roff matrix r [] G = Inr G"
| "advGcols ron roff matrix r (c # cs) G =
     (case cellAt matrix r c of
        Inl e \<Rightarrow> Inl e
      | Inr cl \<Rightarrow>
          (if \<not> selector cl then advGcols ron roff matrix r cs (G[r := (G ! r)[c := 0]])
           else let R = (if rstate cl = ''RON'' then ron else roff)
                in advGcols ron roff matrix r cs (G[r := (G ! r)[c := 1 / R]])))"

fun advGrows ::
  "real \<Rightarrow> real \<Rightarrow> cell list list \<Rightarrow> nat \<Rightarrow> nat list \<Rightarrow> real list list \<Rightarrow> error + real list list" where
  "advGrows ron roff matrix cols [] G = Inr G"
| "advGrows ron roff matrix cols (r # rs) G =
     (case advGcols ron roff matrix r [0..<cols] G of
        Inl e \<Rightarrow> Inl e
      | Inr G' \<Rightarrow> advGrows ron roff matrix cols rs G')"

definition advCurrents ::
  "nat \<Rightarrow> nat \<Rightarrow> bool list \<Rightarrow> real \<Rightarrow> real list list \<Rightarrow> real list list \<times> real list" where
  "advCurrents rows cols drivenWL' vDrive G =
     fold (\<lambda>r st.
        let Vwl = (if drivenAt drivenWL' r then vDrive else 0) in
        fold (\<lambda>c (I, BL).
           let Vbl = 0;
               Irc = (Vwl - Vbl) * (G ! r ! c) in
           (I[r := (I ! r)[c := Irc]], BL[c := BL ! c + Irc]))
          [0..<cols] st)
       [0..<rows] (replicate rows (replicate cols 0), replicate cols 0)"

definition advMaxI :: "nat \<Rightarrow> nat \<Rightarrow> real list list \<Rightarrow> real" where
  "advMaxI rows cols I =
     fold (\<lambda>r mx. fold (\<lambda>c mx'. if \<bar>I ! r ! c\<bar> > mx' then \<bar>I ! r ! c\<bar> else mx') [0..<cols] mx)
       [0..<rows] 0"

definition advSim ::
  "real \<Rightarrow> real \<Rightarrow> nat \<Rightarrow> nat \<Rightarrow> cell list list \<Rightarrow> bool list \<Rightarrow> real \<Rightarrow> error + simResult" where
  "advSim ron roff rows cols matrix drivenWL' vDrive =
     (case advGrows ron roff matrix cols [0..<rows] (replicate rows (replicate cols 0)) of
        Inl e \<Rightarrow> Inl e
      | Inr G \<Rightarrow>
          (let (I, BL) = advCurrents rows cols drivenWL' vDrive G
           in Inr \<lparr>simG = G, simI = I, BL_total = BL, maxI = advMaxI rows cols I\<rparr>))"

definition sim :: "nat \<Rightarrow> nat \<Rightarrow> cell list list \<Rightarrow> bool list \<Rightarrow> real \<Rightarrow> error + simResult" where
  "sim rows cols matrix drivenWL' vDrive = advSim RON_adv ROFF_adv rows cols matrix drivenWL' vDrive"

subsection \<open>The read model as the specification words it\<close>

text \<open>
  The conductance of a cell: 0 when the selector is off, else \<open>1/R_low\<close> for the
  low-resistance state \<open>RON\<close> and \<open>1/R_high\<close> otherwise. The voltage of a row: the drive
  voltage when the row is driven, else 0. The computation of the app is compared with
  these.
\<close>

definition conductance :: "real \<Rightarrow> real \<Rightarrow> cell \<Rightarrow> real" where
  "conductance ron roff cl =
     (if \<not> selector cl then 0 else if rstate cl = ''RON'' then 1 / ron else 1 / roff)"

definition rowVoltage :: "bool list \<Rightarrow> real \<Rightarrow> nat \<Rightarrow> real" where
  "rowVoltage d vDrive r = (if drivenAt d r then vDrive else 0)"

section \<open>Properties of the simulator\<close>

lemma getState_value:
  "fst (getState r c ms) = (case ms (r, c) of None \<Rightarrow> 0 | Some m \<Rightarrow> state m)"
  by (simp add: getState_def ensure_def makeId_def split: option.splits)

lemma MNOR_lookup:
  "snd (MNOR t a b ms) k =
     (if k = t then
        Some ((fst (ensure (fst t) (snd t) (snd (ensure (fst b) (snd b) (snd (ensure (fst a) (snd a) ms))))))
              \<lparr>state := fst (MNOR t a b ms),
               history := history (fst (ensure (fst t) (snd t) (snd (ensure (fst b) (snd b) (snd (ensure (fst a) (snd a) ms))))))
                          @ [HistAB ''MNOR'' (fst (MNOR t a b ms)) (fst (getState (fst a) (snd a) ms))
                               (fst (getState (fst b) (snd b) (snd (ensure (fst a) (snd a) ms))))]\<rparr>)
      else snd (ensure (fst t) (snd t) (snd (ensure (fst b) (snd b) (snd (ensure (fst a) (snd a) ms))))) k)"
  by (simp add: MNOR_def getState_def makeId_def Let_def case_prod_beta)

lemma ensure_keeps_value:
  "fst (getState r c (snd (ensure r' c' ms))) = fst (getState r c ms)"
  by (simp add: getState_value ensure_def makeId_def split: option.splits)

lemma MNOR_result:
  "fst (MNOR t a b ms) =
     (if fst (getState (fst a) (snd a) ms) \<noteq> 0 \<or> fst (getState (fst b) (snd b) ms) \<noteq> 0 then 0 else 1)"
proof -
  have "fst (getState (fst b) (snd b) (snd (ensure (fst a) (snd a) ms))) = fst (getState (fst b) (snd b) ms)"
    by (rule ensure_keeps_value)
  then show ?thesis
    by (simp add: MNOR_def getState_def Let_def case_prod_beta)
qed

text \<open>
  C5. After \<open>norWrite(target, a, b)\<close> (\<open>MNOR\<close>) the state of \<open>target\<close>, as \<open>getState\<close>
  returns it, is the complement of \<open>state(a) OR state(b)\<close> taken on the states before the
  call: 1 when both are 0, and 0 when either is set. \<open>MNOR\<close> returns the same value.
\<close>

theorem MNOR_writes_nor:
  "fst (getState tr tc (snd (MNOR (tr, tc) (ar, ac) (br, bc) ms))) =
     (if fst (getState ar ac ms) = 0 \<and> fst (getState br bc ms) = 0 then 1 else 0)
   \<and> fst (MNOR (tr, tc) (ar, ac) (br, bc) ms) =
     (if fst (getState ar ac ms) = 0 \<and> fst (getState br bc ms) = 0 then 1 else 0)"
proof -
  have r: "fst (MNOR (tr, tc) (ar, ac) (br, bc) ms) =
      (if fst (getState ar ac ms) = 0 \<and> fst (getState br bc ms) = 0 then 1 else 0)"
    using MNOR_result [of "(tr, tc)" "(ar, ac)" "(br, bc)" ms] by simp
  have "fst (getState tr tc (snd (MNOR (tr, tc) (ar, ac) (br, bc) ms))) =
      fst (MNOR (tr, tc) (ar, ac) (br, bc) ms)"
    by (simp add: getState_value MNOR_lookup)
  with r show ?thesis by simp
qed

theorem MNOR_writes_nor_witness:
  "fst (getState 0 3 (snd (MNOR (0, 3) (0, 1) (0, 2) (setState 0 1 (JNum 1) Map.empty)))) = 0
   \<and> fst (getState 0 3 (snd (MNOR (0, 3) (0, 1) (0, 2) Map.empty))) = 1"
proof -
  have "fst (getState 0 1 (setState 0 1 (JNum 1) Map.empty)) = 1"
    and "fst (getState 0 1 Map.empty) = 0"
    and "fst (getState 0 2 Map.empty) = 0"
    by (simp_all add: getState_value setState_def ensure_def makeId_def)
  then show ?thesis
    using MNOR_writes_nor [of 0 3 0 1 0 2 "setState 0 1 (JNum 1) Map.empty"]
      MNOR_writes_nor [of 0 3 0 1 0 2 Map.empty]
    by simp
qed

subsection \<open>\<open>resetGrid\<close>\<close>

lemma ensure_lookup:
  "snd (ensure r c ms) k =
     (if k = (r, c) \<and> ms k = None then Some \<lparr>state = 0, history = []\<rparr> else ms k)"
  by (auto simp: ensure_def makeId_def split: option.splits)

text \<open>The inner loop over the columns of row \<open>r\<close>, then the outer loop over the rows.\<close>

lemma ensure_cols_lookup:
  "fold (\<lambda>c acc. snd (ensure r c acc)) cs ms k =
     (if ms k = None \<and> fst k = r \<and> snd k \<in> set cs then Some \<lparr>state = 0, history = []\<rparr>
      else ms k)"
proof (induction cs arbitrary: ms)
  case Nil
  show ?case by simp
next
  case (Cons c cs)
  show ?case
    by (simp add: Cons.IH) (auto simp: ensure_lookup prod_eq_iff)
qed

lemma ensure_rows_lookup:
  "fold (\<lambda>r acc. fold (\<lambda>c acc'. snd (ensure r c acc')) [0..<cols] acc) rs ms k =
     (if ms k = None \<and> fst k \<in> set rs \<and> snd k < cols then Some \<lparr>state = 0, history = []\<rparr>
      else ms k)"
proof (induction rs arbitrary: ms)
  case Nil
  show ?case by simp
next
  case (Cons r rs)
  show ?case
    by (simp add: Cons.IH) (auto simp: ensure_cols_lookup)
qed

lemma resetGrid_lookup:
  "resetGrid rows cols ms (r, c) =
     (if r < rows \<and> c < cols then Some \<lparr>state = 0, history = []\<rparr> else None)"
  by (simp add: resetGrid_def ensure_rows_lookup)

text \<open>
  C6. After \<open>resetGrid(rows, cols)\<close>, \<open>getState(r, c)\<close> returns 0 for every coordinate
  with \<open>r < rows\<close> and \<open>c < cols\<close>, whatever the grid held before; the cell is in the map,
  with state 0 and an empty history.
\<close>

theorem resetGrid_all_zero:
  assumes "r < rows" and "c < cols"
  shows "fst (getState r c (resetGrid rows cols ms)) = 0
    \<and> resetGrid rows cols ms (makeId r c) = Some \<lparr>state = 0, history = []\<rparr>"
  using assms by (simp add: getState_value resetGrid_lookup makeId_def)

theorem resetGrid_all_zero_witness:
  "(1::nat) < 2 \<and> (3::nat) < 4
   \<and> fst (getState 1 3 (resetGrid 2 4 (setState 1 3 (JNum 1) Map.empty))) = 0
   \<and> fst (getState 1 3 (setState 1 3 (JNum 1) Map.empty)) = 1"
proof -
  have a: "(1::nat) < 2" and b: "(3::nat) < 4" by simp_all
  have "fst (getState 1 3 (setState 1 3 (JNum 1) Map.empty)) = 1"
    by (simp add: getState_value setState_def ensure_def makeId_def)
  with resetGrid_all_zero [OF a b, of "setState 1 3 (JNum 1) Map.empty"] show ?thesis by simp
qed

subsection \<open>The frame of \<open>MNOR\<close>\<close>

text \<open>
  C9. \<open>MNOR(target, a, b)\<close> leaves the state that \<open>getState\<close> returns unchanged at every
  coordinate other than \<open>target\<close> (the operand cells it creates have state 0, which is
  what \<open>getState\<close> returned for them before), and the value written to \<open>target\<close> is the
  NOR of the operands' states before the call, also when \<open>target\<close> is \<open>a\<close> or \<open>b\<close>.
\<close>

theorem MNOR_frame:
  "((r, c) \<noteq> (tr, tc) \<longrightarrow>
      fst (getState r c (snd (MNOR (tr, tc) a b ms))) = fst (getState r c ms))
   \<and> fst (getState tr tc (snd (MNOR (tr, tc) a b ms))) =
       (if fst (getState (fst a) (snd a) ms) \<noteq> 0 \<or> fst (getState (fst b) (snd b) ms) \<noteq> 0
        then 0 else 1)"
proof -
  have frame: "fst (getState r c (snd (MNOR (tr, tc) a b ms))) = fst (getState r c ms)"
    if "(r, c) \<noteq> (tr, tc)"
  proof -
    have "fst (getState r c (snd (MNOR (tr, tc) a b ms))) =
        fst (getState r c
          (snd (ensure tr tc (snd (ensure (fst b) (snd b) (snd (ensure (fst a) (snd a) ms)))))))"
      using that by (auto simp: getState_value MNOR_lookup)
    then show ?thesis by (simp add: ensure_keeps_value)
  qed
  have "fst (getState tr tc (snd (MNOR (tr, tc) a b ms))) = fst (MNOR (tr, tc) a b ms)"
    by (simp add: getState_value MNOR_lookup)
  with frame show ?thesis by (simp add: MNOR_result)
qed

text \<open>
  The target is also the first operand: cell (0,1) holds 1, and \<open>MNOR\<close> writes
  the NOR of 1 and 0 into it; cell (0,2) keeps its state.
\<close>

theorem MNOR_frame_witness:
  "(0::nat, 2::nat) \<noteq> (0, 1)
   \<and> fst (getState 0 1 (setState 0 1 (JNum 1) Map.empty)) = 1
   \<and> fst (getState 0 1 (snd (MNOR (0, 1) (0, 1) (0, 2) (setState 0 1 (JNum 1) Map.empty)))) = 0
   \<and> fst (getState 0 2 (snd (MNOR (0, 1) (0, 1) (0, 2) (setState 0 1 (JNum 1) Map.empty)))) = 0"
proof -
  have "fst (getState 0 1 (setState 0 1 (JNum 1) Map.empty)) = 1"
    and "fst (getState 0 2 (setState 0 1 (JNum 1) Map.empty)) = 0"
    by (simp_all add: getState_value setState_def ensure_def makeId_def)
  then show ?thesis
    using MNOR_frame [of 0 2 0 1 "(0, 1)" "(0, 2)" "setState 0 1 (JNum 1) Map.empty"]
    by simp
qed

subsection \<open>The binary-state invariant\<close>

lemma binaryStates_empty: "binaryStates Map.empty"
  by (simp add: binaryStates_def)

lemma binaryStates_ensure: "binaryStates ms \<Longrightarrow> binaryStates (snd (ensure r c ms))"
  by (auto simp: binaryStates_def ensure_lookup split: if_splits)

lemma binaryStates_upd:
  "binaryStates ms \<Longrightarrow> v = 0 \<or> v = 1 \<Longrightarrow>
   binaryStates (ms(k \<mapsto> m\<lparr>state := v, history := h\<rparr>))"
  by (auto simp: binaryStates_def)

lemma binaryStates_setState: "binaryStates ms \<Longrightarrow> binaryStates (setState r c v ms)"
  by (simp add: setState_def Let_def case_prod_beta binaryStates_upd binaryStates_ensure)

lemma binaryStates_MNOT: "binaryStates ms \<Longrightarrow> binaryStates (snd (MNOT t ms))"
  by (simp add: MNOT_def Let_def case_prod_beta binaryStates_upd binaryStates_ensure)

lemma binaryStates_MNOR: "binaryStates ms \<Longrightarrow> binaryStates (snd (MNOR t a b ms))"
  by (simp add: MNOR_def Let_def case_prod_beta binaryStates_upd binaryStates_ensure)

lemma binaryStates_getState: "binaryStates ms \<Longrightarrow> binaryStates (snd (getState r c ms))"
  by (simp add: getState_def case_prod_beta binaryStates_ensure)

lemma binaryStates_resetGrid: "binaryStates (resetGrid rows cols ms)"
  by (auto simp: binaryStates_def resetGrid_lookup split: if_splits)

lemma binaryStates_applyOp: "binaryStates ms \<Longrightarrow> binaryStates (applyOp x ms)"
  by (cases x)
    (simp_all add: binaryStates_setState binaryStates_MNOT binaryStates_MNOR
       binaryStates_getState binaryStates_resetGrid COM_def ISO_def JSET_def JRES_def)

lemma binaryStates_fold: "binaryStates ms \<Longrightarrow> binaryStates (fold applyOp ops ms)"
  by (induction ops arbitrary: ms) (simp_all add: binaryStates_applyOp)

lemma setState_value:
  "fst (getState r c (setState r c v ms)) = (if truthy v then 1 else 0)"
  by (simp add: getState_value setState_def Let_def case_prod_beta makeId_def)

lemma getState_binary:
  "binaryStates ms \<Longrightarrow> fst (getState r c ms) = 0 \<or> fst (getState r c ms) = 1"
  by (auto simp: getState_value binaryStates_def split: option.splits)

text \<open>
  C8. Starting from the empty simulator, or from any grid whose cells all hold 0 or 1,
  every cell holds 0 or 1 after any sequence of \<open>resetGrid\<close>, \<open>setState\<close>, \<open>getState\<close>,
  \<open>MNOT\<close>, \<open>MNOR\<close> and the no-op control instructions, and so does every value
  \<open>getState\<close> returns. \<open>setState\<close> stores 1 for a truthy value and 0 for a falsy one, and
  a cell created on first reference has state 0.
\<close>

theorem binary_state_invariant:
  "binaryStates (applyOps ops Map.empty)
   \<and> (binaryStates ms \<longrightarrow> binaryStates (applyOps ops ms))
   \<and> (binaryStates ms \<longrightarrow> fst (getState r c (applyOps ops ms)) \<in> {0, 1})
   \<and> fst (getState r c (setState r c v ms)) = (if truthy v then 1 else 0)
   \<and> fst (getState r c Map.empty) = 0"
proof -
  have "binaryStates (applyOps ops ms)" if "binaryStates ms" for ms
    using that by (simp add: applyOps_def binaryStates_fold)
  moreover have "fst (getState r c Map.empty) = 0"
    by (simp add: getState_value)
  ultimately show ?thesis
    using getState_binary [of "applyOps ops ms" r c]
    by (auto simp: binaryStates_empty setState_value)
qed

theorem binary_state_invariant_witness:
  "binaryStates Map.empty
   \<and> binaryStates (applyOps [OpResetGrid 1 4, OpSetState 0 0 (JStr ''x''), OpSetState 0 1 (JNum 7),
        OpISO, OpMNOT (0, 1), OpMNOT (0, 2), OpMNOR (0, 3) (0, 1) (0, 2), OpGetState 2 2] Map.empty)
   \<and> fst (getState 0 0 (setState 0 0 (JNum 7) Map.empty)) = 1
   \<and> fst (getState 0 0 (setState 0 0 (JStr []) Map.empty)) = 0"
  using binary_state_invariant [of "[OpResetGrid 1 4, OpSetState 0 0 (JStr ''x''),
        OpSetState 0 1 (JNum 7), OpISO, OpMNOT (0, 1), OpMNOT (0, 2), OpMNOR (0, 3) (0, 1) (0, 2),
        OpGetState 2 2]" Map.empty 0 0 "JNum 7"]
    binary_state_invariant [of "[]" Map.empty 0 0 "JStr []"]
  by (simp add: binaryStates_empty)


section \<open>Properties of the gate catalog and of \<open>runGate\<close>\<close>

lemma xor32_bits:
  "xor32 0 0 = 0" "xor32 0 1 = 1" "xor32 1 0 = 1" "xor32 1 1 = 0"
  by (simp_all add: xor32_def)

text \<open>
  C1. On bits \<open>a\<close> and \<open>b\<close>, \<open>computeTruth\<close> gives the conventional value of each of the
  six gates: \<open>NOT(a) = 1 - a\<close>, \<open>AND = a * b\<close>, \<open>OR = max a b\<close>, \<open>NAND = 1 - a * b\<close>,
  \<open>XOR = a xor b\<close> and \<open>XNOR = 1 - (a xor b)\<close>.
\<close>

theorem computeTruth_table:
  assumes "a \<in> {0, 1}" and "b \<in> {0, 1}"
  shows "computeTruth ''NOT'' a b = JNum (1 - a)
    \<and> computeTruth ''AND'' a b = JNum (a * b)
    \<and> computeTruth ''OR'' a b = JNum (max a b)
    \<and> computeTruth ''NAND'' a b = JNum (1 - a * b)
    \<and> computeTruth ''XOR'' a b = JNum (bitXor a b)
    \<and> computeTruth ''XNOR'' a b = JNum (1 - bitXor a b)"
  using assms
  by (auto simp: computeTruth_def xor32_bits bitXor_def)

theorem computeTruth_table_witness:
  "(1::int) \<in> {0, 1} \<and> (0::int) \<in> {0, 1}
   \<and> computeTruth ''NAND'' 1 1 = JNum 0
   \<and> computeTruth ''XOR'' 0 1 = JNum 1
   \<and> computeTruth ''XNOR'' 1 1 = JNum 1
   \<and> computeTruth ''NOT'' 0 1 = JNum 1
   \<and> computeTruth ''AND'' 1 1 = JNum 1
   \<and> computeTruth ''OR'' 0 1 = JNum 1"
proof -
  have one: "(1::int) \<in> {0, 1}" and zero: "(0::int) \<in> {0, 1}"
    by simp_all
  show ?thesis
    using computeTruth_table [OF one one] computeTruth_table [OF zero one]
    by (simp add: bitXor_def)
qed

subsection \<open>What \<open>getState\<close> returns after each operation\<close>

lemma val_getState:
  "fst (getState r c (snd (getState r' c' ms))) = fst (getState r c ms)"
  using ensure_keeps_value [of r c r' c' ms] by (simp add: getState_def case_prod_beta)

lemma val_resetGrid: "fst (getState r c (resetGrid rows cols ms)) = 0"
  by (simp add: getState_value resetGrid_lookup)

lemma val_setState:
  "fst (getState r c (setState r' c' v ms)) =
     (if r = r' \<and> c = c' then (if truthy v then 1 else 0) else fst (getState r c ms))"
  by (simp add: getState_value setState_def Let_def case_prod_beta makeId_def ensure_lookup)

lemma val_MNOT:
  "fst (getState r c (snd (MNOT t ms))) =
     (if (r, c) = t then (if fst (getState r c ms) \<noteq> 0 then 0 else 1)
      else fst (getState r c ms))"
  by (cases t)
    (auto simp: getState_value MNOT_def Let_def case_prod_beta makeId_def ensure_lookup ensure_def
      split: option.splits)

text \<open>
  C2. The run of gate \<open>NOT\<close> reports 0 for every input, since it reads cell (0,3), which
  no instruction of \<open>NOT\<close> writes; the \<open>MNOT\<close> of the sequence sets cell (0,2) to 1 and
  never reads the input cell (0,0). For \<open>A = 0\<close> the claim and \<open>computeTruth\<close> give 1.
\<close>

theorem runGate_NOT_reports_zero:
  "fst (runGate ''NOT'' inp ms) = Inr 0
   \<and> fst (getState 0 2 (snd (runGate ''NOT'' inp ms))) = 1
   \<and> fst (getState 0 0 (snd (runGate ''NOT'' inp ms))) = (if A inp \<noteq> 0 then 1 else 0)
   \<and> computeTruth ''NOT'' 0 (B inp) = JNum 1"
  by (simp add: runGate_def GATES_def gateNOT_def execInstr_def callMNOT_def argAt_def ISO_def
      Let_def val_getState val_resetGrid val_setState val_MNOT computeTruth_def)

text \<open>The failing input: gate \<open>NOT\<close> with \<open>A = 0\<close> on the empty simulator.\<close>

theorem runGate_NOT_reports_zero_witness:
  "fst (runGate ''NOT'' \<lparr>A = 0, B = 0\<rparr> Map.empty) = Inr 0
   \<and> fst (getState 0 2 (snd (runGate ''NOT'' \<lparr>A = 0, B = 0\<rparr> Map.empty))) = 1
   \<and> computeTruth ''NOT'' 0 0 = JNum 1"
  using runGate_NOT_reports_zero [of "\<lparr>A = 0, B = 0\<rparr>" Map.empty]
  by simp

text \<open>
  C7, as the claim states it, fails for a gate name: \<open>FOO\<close> is not in the catalog, and
  \<open>runGate\<close> raises \<open>TypeError\<close>.
\<close>

theorem runGate_absent_raises:
  "GATES ''FOO'' = Absent \<and> fst (runGate ''FOO'' \<lparr>A = 1, B = 0\<rparr> Map.empty) = Inl TypeError"
  by (simp add: runGate_def GATES_def objectPrototypeKeys_def)

text \<open>
  C7, amended. An instruction whose op-code is none of \<open>MNOT\<close>, \<open>MNOR\<close>, \<open>ISO\<close>, \<open>COM\<close>,
  \<open>JSET\<close>, \<open>JRES\<close> raises nothing and leaves the map as it is, and the step of the run
  loop that holds it changes no state that \<open>getState\<close> returns. A gate name that is not
  in the catalog makes \<open>runGate\<close> raise \<open>TypeError\<close>; when the name is absent (not
  inherited from \<open>Object.prototype\<close> either) the map is as it was.
\<close>

theorem unknown_op_or_gate:
  "(op ins \<notin> set [''MNOT'', ''MNOR'', ''ISO'', ''COM'', ''JSET'', ''JRES''] \<longrightarrow>
      execInstr ins ms = (Inr (), ms)
      \<and> runInstructions (ins # rest) ms = runInstructions rest (snd (getState 0 3 ms))
      \<and> fst (getState r c (snd (getState 0 3 ms))) = fst (getState r c ms))
   \<and> (GATES g = Absent \<longrightarrow> runGate g inp ms = (Inl TypeError, ms))
   \<and> ((\<forall>gd. GATES g \<noteq> Own gd) \<longrightarrow> fst (runGate g inp ms) = Inl TypeError)"
proof -
  have ex: "execInstr ins ms = (Inr (), ms)"
    if "op ins \<notin> set [''MNOT'', ''MNOR'', ''ISO'', ''COM'', ''JSET'', ''JRES'']"
    using that by (simp add: execInstr_def)
  have "fst (runGate g inp ms) = Inl TypeError" if "\<forall>gd. GATES g \<noteq> Own gd"
    using that by (cases "GATES g") (simp_all add: runGate_def Let_def)
  moreover have "runGate g inp ms = (Inl TypeError, ms)" if "GATES g = Absent"
    using that by (simp add: runGate_def)
  ultimately show ?thesis
    using ex by (simp add: val_getState)
qed

theorem unknown_op_or_gate_witness:
  "op \<lparr>op = ''NOP'', args = None\<rparr> \<notin> set [''MNOT'', ''MNOR'', ''ISO'', ''COM'', ''JSET'', ''JRES'']
   \<and> execInstr \<lparr>op = ''NOP'', args = None\<rparr> (setState 0 0 (JNum 1) Map.empty)
       = (Inr (), setState 0 0 (JNum 1) Map.empty)
   \<and> GATES ''FOO'' = Absent
   \<and> runGate ''FOO'' \<lparr>A = 1, B = 0\<rparr> (setState 0 0 (JNum 1) Map.empty)
       = (Inl TypeError, setState 0 0 (JNum 1) Map.empty)"
  using unknown_op_or_gate [of "\<lparr>op = ''NOP'', args = None\<rparr>" "setState 0 0 (JNum 1) Map.empty"
      "[]" 0 0 "''FOO''" "\<lparr>A = 1, B = 0\<rparr>"]
  by (simp add: GATES_def objectPrototypeKeys_def)

text \<open>
  A name inherited from \<open>Object.prototype\<close> is not in the catalog either: the run clears
  the grid and seeds the input cells before it raises.
\<close>

lemma runGate_inherited:
  "GATES ''toString'' = Inherited
   \<and> fst (runGate ''toString'' \<lparr>A = 1, B = 0\<rparr> ms) = Inl TypeError
   \<and> fst (getState 0 0 (snd (runGate ''toString'' \<lparr>A = 1, B = 0\<rparr> ms))) = 1"
  by (simp add: runGate_def GATES_def objectPrototypeKeys_def Let_def val_setState)

section \<open>Properties of the crossbar read model\<close>

lemma upt4: "[0..<4] = [0, 1, 2, 3::nat]"
  by (simp add: upt_conv_Cons)

lemma less4: "(r::nat) < 4 \<Longrightarrow> r = 0 \<or> r = 1 \<or> r = 2 \<or> r = 3"
  by arith

lemma sum4: "(\<Sum>r<(4::nat). f r) = f 0 + f 1 + f 2 + (f 3 :: real)"
  by (simp add: eval_nat_numeral)

text \<open>One step of the conductance loop, with the written value folded into \<open>conductance\<close>.\<close>

lemma appGcols_Cons:
  "appGcols ron roff crossbar r (c # cs) G =
     (case cellAt crossbar r c of
        Inl e \<Rightarrow> Inl e
      | Inr cl \<Rightarrow> appGcols ron roff crossbar r cs (G[r := (G ! r)[c := conductance ron roff cl]]))"
  by (simp add: conductance_def split: sum.splits)

lemma wf4_rows:
  assumes "wf4 m"
  obtains c00 c01 c02 c03 c10 c11 c12 c13 c20 c21 c22 c23 c30 c31 c32 c33 where
    "m = [[c00, c01, c02, c03], [c10, c11, c12, c13], [c20, c21, c22, c23], [c30, c31, c32, c33]]"
proof -
  have four: "\<exists>a b c d. xs = [a, b, c, d]" if "length xs = 4" for xs :: "'a list"
    using that by (auto simp: length_Suc_conv eval_nat_numeral)
  from assms obtain r0 r1 r2 r3 where m: "m = [r0, r1, r2, r3]"
    using four [of m] by (auto simp: wf4_def)
  with assms have "length r0 = 4" "length r1 = 4" "length r2 = 4" "length r3 = 4"
    by (simp_all add: wf4_def)
  then show thesis
    using four [of r0] four [of r1] four [of r2] four [of r3] m that by blast
qed

lemma appGrows_explicit:
  "appGrows ron roff
     [[c00, c01, c02, c03], [c10, c11, c12, c13], [c20, c21, c22, c23], [c30, c31, c32, c33]]
     [0..<4] appG0 =
   Inr (map (map (conductance ron roff))
     [[c00, c01, c02, c03], [c10, c11, c12, c13], [c20, c21, c22, c23], [c30, c31, c32, c33]])"
  by (simp add: upt4 appGcols_Cons cellAt_def appG0_def eval_nat_numeral del: appGcols.simps(2))

lemma appCurrents_rowVoltage:
  "appCurrents d v G =
     fold (\<lambda>r st.
        fold (\<lambda>c (cur, bl).
           (cur[r := (cur ! r)[c := rowVoltage d v r * (G ! r ! c)]],
            bl[c := bl ! c + rowVoltage d v r * (G ! r ! c)]))
          [0..<4] st)
       [0..<4] (replicate 4 (replicate 4 0), replicate 4 0)"
  by (simp add: appCurrents_def rowVoltage_def Let_def)

lemma appCurrents_explicit:
  "appCurrents d v
     [[g00, g01, g02, g03], [g10, g11, g12, g13], [g20, g21, g22, g23], [g30, g31, g32, g33]] =
   ([[rowVoltage d v 0 * g00, rowVoltage d v 0 * g01, rowVoltage d v 0 * g02, rowVoltage d v 0 * g03],
     [rowVoltage d v 1 * g10, rowVoltage d v 1 * g11, rowVoltage d v 1 * g12, rowVoltage d v 1 * g13],
     [rowVoltage d v 2 * g20, rowVoltage d v 2 * g21, rowVoltage d v 2 * g22, rowVoltage d v 2 * g23],
     [rowVoltage d v 3 * g30, rowVoltage d v 3 * g31, rowVoltage d v 3 * g32, rowVoltage d v 3 * g33]],
    [rowVoltage d v 0 * g00 + rowVoltage d v 1 * g10 + rowVoltage d v 2 * g20 + rowVoltage d v 3 * g30,
     rowVoltage d v 0 * g01 + rowVoltage d v 1 * g11 + rowVoltage d v 2 * g21 + rowVoltage d v 3 * g31,
     rowVoltage d v 0 * g02 + rowVoltage d v 1 * g12 + rowVoltage d v 2 * g22 + rowVoltage d v 3 * g32,
     rowVoltage d v 0 * g03 + rowVoltage d v 1 * g13 + rowVoltage d v 2 * g23 + rowVoltage d v 3 * g33])"
  by (simp add: appCurrents_rowVoltage upt4 eval_nat_numeral)

lemma updateCrossbar_explicit:
  "updateCrossbar a b output =
     [[\<lparr>rstate = (if a = 1 then ''RON'' else ''ROFF''), selector = True\<rparr>,
       \<lparr>rstate = (if b = 1 then ''RON'' else ''ROFF''), selector = True\<rparr>,
       \<lparr>rstate = ''INTER'', selector = True\<rparr>, \<lparr>rstate = ''INTER'', selector = True\<rparr>],
      [\<lparr>rstate = (if output = JNum 1 then ''RON'' else ''ROFF''), selector = True\<rparr>,
       \<lparr>rstate = ''INTER'', selector = True\<rparr>,
       \<lparr>rstate = ''INTER'', selector = True\<rparr>, \<lparr>rstate = ''INTER'', selector = True\<rparr>],
      [\<lparr>rstate = ''INTER'', selector = True\<rparr>, \<lparr>rstate = ''INTER'', selector = True\<rparr>,
       \<lparr>rstate = ''INTER'', selector = True\<rparr>, \<lparr>rstate = ''INTER'', selector = True\<rparr>],
      [\<lparr>rstate = ''INTER'', selector = True\<rparr>, \<lparr>rstate = ''INTER'', selector = True\<rparr>,
       \<lparr>rstate = ''INTER'', selector = True\<rparr>, \<lparr>rstate = ''INTER'', selector = True\<rparr>]]"
  by (simp add: updateCrossbar_def upt4)

lemma wf4_updateCrossbar: "wf4 (updateCrossbar a b output)"
  by (simp add: wf4_def updateCrossbar_explicit)

text \<open>
  C4. For a crossbar of four rows of four cells, any driven rows and any drive voltage,
  the computation succeeds, and for all \<open>r, c < 4\<close>: \<open>G[r][c]\<close> is the conductance of
  the cell (0 with the selector off, else \<open>1/R_low\<close> or \<open>1/R_high\<close> by its state),
  \<open>currents[r][c]\<close> is \<open>(V_row - 0) * G[r][c]\<close> with \<open>V_row\<close> the drive voltage of a
  driven row and 0 otherwise, and \<open>blTotals[c]\<close> is the sum of \<open>currents[r][c]\<close> over
  the four rows. With row 0 driven at \<open>v\<close> and cell (0,0) selected and in state \<open>RON\<close>
  its current is \<open>v / R_low\<close>; with its selector off its current is 0 for any drive.
\<close>

theorem crossbar_currents:
  assumes "wf4 crossbar"
  shows "\<exists>G cur bl. appCompute ron roff crossbar d v = Inr (G, cur, bl)
     \<and> (\<forall>r<4. \<forall>c<4. G ! r ! c = conductance ron roff (crossbar ! r ! c)
                    \<and> cur ! r ! c = (rowVoltage d v r - 0) * (G ! r ! c))
     \<and> (\<forall>c<4. bl ! c = (\<Sum>r<4. cur ! r ! c))
     \<and> (drivenAt d 0 \<and> selector (crossbar ! 0 ! 0) \<and> rstate (crossbar ! 0 ! 0) = ''RON''
          \<longrightarrow> cur ! 0 ! 0 = v / ron)
     \<and> (\<not> selector (crossbar ! 0 ! 0) \<longrightarrow> cur ! 0 ! 0 = 0)"
proof -
  from assms obtain c00 c01 c02 c03 c10 c11 c12 c13 c20 c21 c22 c23 c30 c31 c32 c33 where
    m: "crossbar =
      [[c00, c01, c02, c03], [c10, c11, c12, c13], [c20, c21, c22, c23], [c30, c31, c32, c33]]"
    by (rule wf4_rows)
  define G where "G = map (map (conductance ron roff)) crossbar"
  define cur where "cur = fst (appCurrents d v G)"
  define bl where "bl = snd (appCurrents d v G)"
  have run: "appCompute ron roff crossbar d v = Inr (G, cur, bl)"
    by (simp add: appCompute_def m appGrows_explicit G_def cur_def bl_def)
  have Gv: "G ! r ! c = conductance ron roff (crossbar ! r ! c)" if "r < 4" "c < 4" for r c
    using less4 [OF that(1)] less4 [OF that(2)] by (auto simp: G_def m)
  have curv: "cur ! r ! c = (rowVoltage d v r - 0) * (G ! r ! c)" if "r < 4" "c < 4" for r c
    using less4 [OF that(1)] less4 [OF that(2)]
    by (auto simp: cur_def G_def m appCurrents_explicit)
  have blv: "bl ! c = (\<Sum>r<4. cur ! r ! c)" if "c < 4" for c
    using less4 [OF that]
    by (auto simp: sum4 bl_def cur_def G_def m appCurrents_explicit)
  have c00: "cur ! 0 ! 0 = rowVoltage d v 0 * conductance ron roff (crossbar ! 0 ! 0)"
    using curv [of 0 0] Gv [of 0 0] by simp
  have low: "cur ! 0 ! 0 = v / ron"
    if "drivenAt d 0 \<and> selector (crossbar ! 0 ! 0) \<and> rstate (crossbar ! 0 ! 0) = ''RON''"
    using that c00 by (simp add: rowVoltage_def conductance_def)
  have off: "cur ! 0 ! 0 = 0" if "\<not> selector (crossbar ! 0 ! 0)"
    using that c00 by (simp add: conductance_def)
  from run Gv curv blv low off show ?thesis by blast
qed

text \<open>
  The crossbar the app stores for \<open>A = 1\<close>, \<open>B = 0\<close> and output 0, with row 0 driven at
  2 V: cell (0,0) is \<open>RON\<close> and carries \<open>2 / 1000\<close>, row 1 is not driven.
\<close>

theorem crossbar_currents_witness:
  "wf4 (updateCrossbar 1 0 (JNum 0))
   \<and> (\<exists>G cur bl.
        appCompute RON ROFF (updateCrossbar 1 0 (JNum 0)) [True, False, False, False] 2
          = Inr (G, cur, bl)
        \<and> G ! 0 ! 0 = 1 / 1000 \<and> G ! 1 ! 0 = 1 / 1000000
        \<and> cur ! 0 ! 0 = 2 / 1000 \<and> cur ! 1 ! 0 = 0
        \<and> bl ! 0 = cur ! 0 ! 0 + cur ! 1 ! 0 + cur ! 2 ! 0 + cur ! 3 ! 0)"
proof -
  have wf: "wf4 (updateCrossbar 1 0 (JNum 0))"
    by (rule wf4_updateCrossbar)
  from crossbar_currents [OF wf, of RON ROFF "[True, False, False, False]" 2]
  obtain G cur bl where
    run: "appCompute RON ROFF (updateCrossbar 1 0 (JNum 0)) [True, False, False, False] 2
          = Inr (G, cur, bl)"
    and pt: "\<And>r c. r < 4 \<Longrightarrow> c < 4 \<Longrightarrow>
        G ! r ! c = conductance RON ROFF (updateCrossbar 1 0 (JNum 0) ! r ! c)
        \<and> cur ! r ! c = (rowVoltage [True, False, False, False] 2 r - 0) * (G ! r ! c)"
    and tot: "\<And>c. c < 4 \<Longrightarrow> bl ! c = (\<Sum>r<4. cur ! r ! c)"
    by blast
  have "G ! 0 ! 0 = 1 / 1000 \<and> cur ! 0 ! 0 = 2 / 1000"
    using pt [of 0 0]
    by (simp add: updateCrossbar_explicit conductance_def rowVoltage_def drivenAt_def RON_def)
  moreover have "G ! 1 ! 0 = 1 / 1000000 \<and> cur ! 1 ! 0 = 0"
    using pt [of 1 0]
    by (simp add: updateCrossbar_explicit conductance_def rowVoltage_def drivenAt_def ROFF_def)
  moreover have "bl ! 0 = cur ! 0 ! 0 + cur ! 1 ! 0 + cur ! 2 ! 0 + cur ! 3 ! 0"
    using tot [of 0] by (simp add: sum4)
  ultimately show ?thesis using wf run by blast
qed

subsection \<open>The readout\<close>

lemma fold_snd_length:
  assumes "\<And>x s. length (snd (f x s)) = length (snd s)"
  shows "length (snd (fold f xs s)) = length (snd s)"
  by (induction xs arbitrary: s) (simp_all add: assms)

lemma appCurrents_length: "length (snd (appCurrents d v G)) = 4"
proof -
  have inner: "length (snd (fold (\<lambda>c (cur, bl).
           (cur[r := (cur ! r)[c := (w - 0) * (G ! r ! c)]],
            bl[c := bl ! c + (w - 0) * (G ! r ! c)])) cs st)) = length (snd st)"
    for w r cs and st :: "real list list \<times> real list"
    by (rule fold_snd_length) (simp add: case_prod_beta)
  have "length (snd (appCurrents d v G)) =
      length (snd (replicate 4 (replicate 4 (0::real)), replicate 4 (0::real)))"
    unfolding appCurrents_def
    by (rule fold_snd_length) (simp only: Let_def inner)
  then show ?thesis by simp
qed

lemma crossbarEffect_example:
  "crossbarEffect \<lparr>A = 1, B = 0\<rparr> (updateCrossbar 1 0 (JNum 1)) 1 =
     Inr \<lparr>drivenWL = [True, False, False, False], out = 1,
          currents = [[1 / 1000, 1 / 1000000, 1 / 1000000, 1 / 1000000],
                      [0, 0, 0, 0], [0, 0, 0, 0], [0, 0, 0, 0]],
          blTotals = [1 / 1000, 1 / 1000000, 1 / 1000000, 1 / 1000000]\<rparr>"
  by (simp add: crossbarEffect_def appCompute_def updateCrossbar_explicit appGrows_explicit
      appCurrents_explicit rowVoltage_def drivenAt_def conductance_def readout_def threshold_def
      RON_def ROFF_def Let_def)

text \<open>
  C3. The readout is 1 when the total of column 0 is strictly above
  \<open>0.35 * (vDrive / RON)\<close> and 0 otherwise; a total equal to that value reads 0. The
  effect applies it to its \<open>blTotals\<close>, which has four entries.
\<close>

theorem readout_threshold:
  "readout bl v = (if bl \<noteq> [] \<and> bl ! 0 > 0.35 * (v / RON) then 1 else 0)
   \<and> (bl \<noteq> [] \<and> bl ! 0 = 0.35 * (v / RON) \<longrightarrow> readout bl v = 0)
   \<and> (crossbarEffect inp crossbar v = Inr res \<longrightarrow>
        length (blTotals res) = 4
        \<and> out res = (if blTotals res ! 0 > 0.35 * (v / RON) then 1 else 0)
        \<and> (blTotals res ! 0 = 0.35 * (v / RON) \<longrightarrow> out res = 0))"
proof -
  have r: "readout bl v = (if bl \<noteq> [] \<and> bl ! 0 > 0.35 * (v / RON) then 1 else 0)" for bl
    by (simp add: readout_def threshold_def mult.commute)
  have "length (blTotals res) = 4 \<and> out res = readout (blTotals res) v"
    if eff: "crossbarEffect inp crossbar v = Inr res"
  proof (cases "appGrows RON ROFF crossbar [0..<4] appG0")
    case (Inl e)
    with eff show ?thesis
      by (simp add: crossbarEffect_def appCompute_def Let_def)
  next
    case (Inr G)
    with eff show ?thesis
      by (clarsimp simp: crossbarEffect_def appCompute_def Let_def case_prod_beta
          appCurrents_length)
  qed
  with r show ?thesis by auto
qed

theorem readout_threshold_witness:
  "readout [0.35 * (2 / RON), 5, 0, 0] 2 = 0
   \<and> readout [1 / 1000, 0, 0, 0] 1 = 1
   \<and> readout [0, 0, 0, 0] 1 = 0
   \<and> (\<exists>res. crossbarEffect \<lparr>A = 1, B = 0\<rparr> (updateCrossbar 1 0 (JNum 1)) 1 = Inr res
         \<and> blTotals res ! 0 = 1 / 1000 \<and> out res = 1)"
  using readout_threshold [of "[0.35 * (2 / RON), 5, 0, 0]" 2]
    readout_threshold [of "[1 / 1000, 0, 0, 0]" 1]
    readout_threshold [of "[0, 0, 0, 0]" 1]
    crossbarEffect_example
  by (simp add: RON_def)

subsection \<open>The app's computation and the one of \<open>CrossbarAdvanced\<close>\<close>

lemma advGcols_appGcols:
  "advGcols ron roff m r cs G = appGcols ron roff m r cs G"
  by (induction cs arbitrary: G) (simp_all add: Let_def split: sum.splits)

lemma advGrows_appGrows:
  "advGrows ron roff m 4 rs G = appGrows ron roff m rs G"
  by (induction rs arbitrary: G) (simp_all add: advGcols_appGcols split: sum.splits)

lemma advCurrents_appCurrents:
  "advCurrents 4 4 d v G = appCurrents d v G"
  by (simp add: advCurrents_def appCurrents_def Let_def)

text \<open>
  C10. On the same matrix, the same driven rows, the same drive voltage and the same two
  resistances, the app's computation and the \<open>sim\<close> of \<open>CrossbarAdvanced\<close> at 4 by 4
  give the same conductances, the same currents and the same column totals, and raise
  on the same inputs. The effect of the app, which uses \<open>RON\<close> and \<open>ROFF\<close> and derives
  the driven rows from the inputs, agrees with \<open>sim\<close> on these.
\<close>

theorem crossbar_models_agree:
  "appCompute ron roff matrix d v =
     (case advSim ron roff 4 4 matrix d v of
        Inl e \<Rightarrow> Inl e
      | Inr s \<Rightarrow> Inr (simG s, simI s, BL_total s))
   \<and> (case crossbarEffect inp matrix v of
        Inl e \<Rightarrow> Inl e
      | Inr res \<Rightarrow> Inr (currents res, blTotals res)) =
     (case advSim RON ROFF 4 4 matrix [A inp \<noteq> 0, B inp \<noteq> 0, False, False] v of
        Inl e \<Rightarrow> Inl e
      | Inr s \<Rightarrow> Inr (simI s, BL_total s))"
  by (simp add: appCompute_def advSim_def crossbarEffect_def appG0_def advGrows_appGrows
      advCurrents_appCurrents Let_def case_prod_beta split: sum.splits)

text \<open>
  The component's own constants are not the app's: on the same crossbar and drive,
  \<open>sim\<close> as \<open>CrossbarAdvanced\<close> runs it gives other numbers than the effect of the app.
\<close>

lemma sim_example:
  "sim 4 4 (updateCrossbar 1 0 (JNum 1)) [True, False, False, False] 1 =
     Inr \<lparr>simG = [[1 / 2000, 1 / 40000, 1 / 40000, 1 / 40000],
                 [1 / 2000, 1 / 40000, 1 / 40000, 1 / 40000],
                 [1 / 40000, 1 / 40000, 1 / 40000, 1 / 40000],
                 [1 / 40000, 1 / 40000, 1 / 40000, 1 / 40000]],
          simI = [[1 / 2000, 1 / 40000, 1 / 40000, 1 / 40000],
                  [0, 0, 0, 0], [0, 0, 0, 0], [0, 0, 0, 0]],
          BL_total = [1 / 2000, 1 / 40000, 1 / 40000, 1 / 40000],
          maxI = 1 / 2000\<rparr>"
  by (simp add: sim_def advSim_def advGrows_appGrows advCurrents_appCurrents
      updateCrossbar_explicit appGrows_explicit [unfolded appG0_def] case_prod_beta
      appCurrents_explicit rowVoltage_def drivenAt_def conductance_def advMaxI_def
      RON_adv_def ROFF_adv_def)
    (simp add: upt4)

theorem crossbar_models_agree_witness:
  "appCompute RON_adv ROFF_adv (updateCrossbar 1 0 (JNum 1)) [True, False, False, False] 1 =
     Inr ([[1 / 2000, 1 / 40000, 1 / 40000, 1 / 40000],
           [1 / 2000, 1 / 40000, 1 / 40000, 1 / 40000],
           [1 / 40000, 1 / 40000, 1 / 40000, 1 / 40000],
           [1 / 40000, 1 / 40000, 1 / 40000, 1 / 40000]],
          [[1 / 2000, 1 / 40000, 1 / 40000, 1 / 40000],
           [0, 0, 0, 0], [0, 0, 0, 0], [0, 0, 0, 0]],
          [1 / 2000, 1 / 40000, 1 / 40000, 1 / 40000])"
  using crossbar_models_agree [of RON_adv ROFF_adv "updateCrossbar 1 0 (JNum 1)"
      "[True, False, False, False]" 1 "\<lparr>A = 1, B = 0\<rparr>"] sim_example
  by (simp add: sim_def)

end
